theory Spec2Isabelle
  imports Complex_Main
begin

section \<open>Floating-point values\<close>

text \<open>
  The arrays of \<^verbatim>\<open>cg_model.py\<close> hold float64 numbers. A value is a finite number, one of
  the two infinities, or NaN. The range of float64 is modelled (a finite result whose
  magnitude reaches the overflow threshold becomes an infinity, as under round-to-nearest);
  its precision is not: a finite result inside the range is kept as the exact real, so
  neither rounding nor underflow to zero is modelled. Signed zeros are not distinguished.
  Sums are accumulated from left to right; numpy's kernels may add in another order, which
  can move the point where an intermediate sum overflows. No theorem below depends on the
  exactness of a finite result or on the order of a sum.
\<close>

datatype fl = Fin real | PInf | NInf | NaN

definition overflow_threshold :: real where
  "overflow_threshold = 2 ^ 1024 - 2 ^ 970"

definition rnd :: "real \<Rightarrow> fl" where
  "rnd x = (if overflow_threshold \<le> x then PInf
            else if x \<le> - overflow_threshold then NInf
            else Fin x)"

fun isfinite :: "fl \<Rightarrow> bool" where
  "isfinite (Fin x) = True"
| "isfinite PInf = False"
| "isfinite NInf = False"
| "isfinite NaN = False"

fun fneg :: "fl \<Rightarrow> fl" where
  "fneg (Fin x) = Fin (- x)"
| "fneg PInf = NInf"
| "fneg NInf = PInf"
| "fneg NaN = NaN"

fun fadd :: "fl \<Rightarrow> fl \<Rightarrow> fl" where
  "fadd NaN y = NaN"
| "fadd x NaN = NaN"
| "fadd (Fin x) (Fin y) = rnd (x + y)"
| "fadd PInf NInf = NaN"
| "fadd NInf PInf = NaN"
| "fadd PInf y = PInf"
| "fadd NInf y = NInf"
| "fadd x PInf = PInf"
| "fadd x NInf = NInf"

definition fsub :: "fl \<Rightarrow> fl \<Rightarrow> fl" where
  "fsub x y = fadd x (fneg y)"

fun inf_times :: "fl \<Rightarrow> real \<Rightarrow> fl" where
  "inf_times i x = (if x = 0 then NaN else if 0 < x then i else fneg i)"

fun fmul :: "fl \<Rightarrow> fl \<Rightarrow> fl" where
  "fmul NaN y = NaN"
| "fmul x NaN = NaN"
| "fmul (Fin x) (Fin y) = rnd (x * y)"
| "fmul (Fin x) PInf = inf_times PInf x"
| "fmul (Fin x) NInf = inf_times NInf x"
| "fmul PInf (Fin y) = inf_times PInf y"
| "fmul NInf (Fin y) = inf_times NInf y"
| "fmul PInf PInf = PInf"
| "fmul NInf NInf = PInf"
| "fmul PInf NInf = NInf"
| "fmul NInf PInf = NInf"

text \<open>\<^verbatim>\<open>np.sqrt\<close> and \<^verbatim>\<open>np.log\<close> on one float: a warning, never an exception.\<close>

fun np_sqrt :: "fl \<Rightarrow> fl" where
  "np_sqrt (Fin x) = (if 0 \<le> x then Fin (sqrt x) else NaN)"
| "np_sqrt PInf = PInf"
| "np_sqrt NInf = NaN"
| "np_sqrt NaN = NaN"

fun np_log :: "fl \<Rightarrow> fl" where
  "np_log (Fin x) = (if 0 < x then Fin (ln x) else if x = 0 then NInf else NaN)"
| "np_log PInf = PInf"
| "np_log NInf = NaN"
| "np_log NaN = NaN"

text \<open>\<^verbatim>\<open>np.maximum\<close> of two floats: NaN propagates.\<close>

fun fmax :: "fl \<Rightarrow> fl \<Rightarrow> fl" where
  "fmax NaN y = NaN"
| "fmax x NaN = NaN"
| "fmax PInf y = PInf"
| "fmax x PInf = PInf"
| "fmax NInf y = y"
| "fmax x NInf = x"
| "fmax (Fin x) (Fin y) = Fin (max x y)"

definition fsum :: "fl list \<Rightarrow> fl" where
  "fsum xs = foldl fadd (Fin 0) xs"

section \<open>Arrays and errors\<close>

text \<open>
  A numpy array is its shape and its entries in row-major order. \<^verbatim>\<open>np.array(x, dtype=float)\<close>
  makes a fresh float array of the same shape and entries; arrays are values here, so the
  copy is the array itself.
\<close>

record ndarray =
  shape :: "nat list"
  data :: "fl list"

definition ndim :: "ndarray \<Rightarrow> nat" where
  "ndim a = length (shape a)"

definition wf_ndarray :: "ndarray \<Rightarrow> bool" where
  "wf_ndarray a = (length (data a) = prod_list (shape a))"

definition np_array_float :: "ndarray \<Rightarrow> ndarray" where
  "np_array_float a = a"

text \<open>
  Every exception the module raises itself is a \<^verbatim>\<open>ValueError\<close> with a message.
  \<^verbatim>\<open>LinAlgError\<close> is what numpy's decompositions raise.
\<close>

datatype error = ValueError string | LinAlgError string

definition square_msg :: string where
  "square_msg = ''T_infty must be a square 2D array''"

definition psi0_msg :: string where
  "psi0_msg = ''psi0 must be a 1D array compatible with T_infty''"

definition window_msg :: string where
  "window_msg = ''Fit window too small.''"

definition power_msg :: string where
  "power_msg = ''n must be >= 1''"

definition empty_max_msg :: string where
  "empty_max_msg = ''zero-size array to reduction operation maximum which has no identity''"

section \<open>Linear algebra on arrays\<close>

definition mat_row :: "ndarray \<Rightarrow> nat \<Rightarrow> fl list" where
  "mat_row A i = take (shape A ! 1) (drop (i * (shape A ! 1)) (data A))"

definition mat_col :: "ndarray \<Rightarrow> nat \<Rightarrow> fl list" where
  "mat_col A j = map (\<lambda>i. mat_row A i ! j) [0..<shape A ! 0]"

definition dot :: "fl list \<Rightarrow> fl list \<Rightarrow> fl" where
  "dot xs ys = fsum (map2 fmul xs ys)"

text \<open>\<^verbatim>\<open>A @ v\<close> for a matrix of shape (r, c) and a vector of length c.\<close>

definition matvec :: "ndarray \<Rightarrow> fl list \<Rightarrow> fl list" where
  "matvec A v = map (\<lambda>i. dot (mat_row A i) v) [0..<shape A ! 0]"

text \<open>\<^verbatim>\<open>A @ B\<close> for two matrices.\<close>

definition matmul :: "ndarray \<Rightarrow> ndarray \<Rightarrow> ndarray" where
  "matmul A B =
     \<lparr>shape = [shape A ! 0, shape B ! 1],
      data = concat (map (\<lambda>i. map (\<lambda>j. dot (mat_row A i) (mat_col B j)) [0..<shape B ! 1])
                         [0..<shape A ! 0])\<rparr>"

definition eye :: "nat \<Rightarrow> ndarray" where
  "eye d = \<lparr>shape = [d, d],
            data = concat (map (\<lambda>i. map (\<lambda>j. if i = j then Fin 1 else Fin 0) [0..<d]) [0..<d])\<rparr>"

section \<open>The model: construction and evolution\<close>

record CGModel =
  T_infty :: ndarray

text \<open>\<^verbatim>\<open>CGModel(T_infty)\<close>: the dataclass constructor followed by \<^verbatim>\<open>__post_init__\<close>.\<close>

definition post_init :: "ndarray \<Rightarrow> error + CGModel" where
  "post_init a =
     (let T = np_array_float a in
      if ndim T \<noteq> 2 \<or> shape T ! 0 \<noteq> shape T ! 1
      then Inl (ValueError square_msg)
      else Inr \<lparr>T_infty = T\<rparr>)"

text \<open>The number of iterations of \<^verbatim>\<open>for _ in range(n)\<close>.\<close>

definition range_count :: "int \<Rightarrow> nat" where
  "range_count n = (if n \<le> 0 then 0 else nat n)"

text \<open>The loop of \<^verbatim>\<open>evolve\<close>: the current vector and the list \<^verbatim>\<open>traj\<close> built so far.\<close>

fun evolve_loop :: "ndarray \<Rightarrow> nat \<Rightarrow> fl list \<Rightarrow> fl list list \<Rightarrow> fl list list" where
  "evolve_loop T 0 psi traj = traj"
| "evolve_loop T (Suc k) psi traj =
     (let psi' = matvec T psi in evolve_loop T k psi' (traj @ [psi']))"

text \<open>
  \<^verbatim>\<open>evolve\<close> returns \<^verbatim>\<open>np.vstack(traj)\<close>, the two-dimensional array whose rows are the
  entries of \<^verbatim>\<open>traj\<close>; it is kept as the list of its rows.
\<close>

definition evolve :: "CGModel \<Rightarrow> ndarray \<Rightarrow> int \<Rightarrow> error + fl list list" where
  "evolve m psi0 n_steps =
     (let psi = np_array_float psi0 in
      if ndim psi \<noteq> 1 \<or> shape psi ! 0 \<noteq> shape (T_infty m) ! 0
      then Inl (ValueError psi0_msg)
      else Inr (evolve_loop (T_infty m) (range_count n_steps) (data psi) [data psi]))"

text \<open>\<^verbatim>\<open>np.linalg.norm(X, axis=1)\<close>: the square root of the sum of squares of each row.\<close>

definition row_norm :: "fl list \<Rightarrow> fl" where
  "row_norm xs = np_sqrt (fsum (map (\<lambda>x. fmul x x) xs))"

definition norm_axis1 :: "fl list list \<Rightarrow> fl list" where
  "norm_axis1 X = map row_norm X"

text \<open>The difference of two arrays of the same shape, row by row.\<close>

definition array_sub :: "fl list list \<Rightarrow> fl list list \<Rightarrow> fl list list" where
  "array_sub X Y = map2 (map2 fsub) X Y"

definition evolve_pair ::
  "CGModel \<Rightarrow> ndarray \<Rightarrow> ndarray \<Rightarrow> int \<Rightarrow> error + (fl list list \<times> fl list list \<times> fl list)" where
  "evolve_pair m psi0 psi0_prime n_steps =
     (case evolve m psi0 n_steps of
        Inl e \<Rightarrow> Inl e
      | Inr psi_traj \<Rightarrow>
          (case evolve m psi0_prime n_steps of
             Inl e \<Rightarrow> Inl e
           | Inr psi_traj_prime \<Rightarrow>
               Inr (psi_traj, psi_traj_prime, norm_axis1 (array_sub psi_traj psi_traj_prime))))"

section \<open>Exponent estimation\<close>

text \<open>\<^verbatim>\<open>xs[i:j]\<close>, with Python's treatment of negative and out-of-range bounds.\<close>

definition py_slice :: "'a list \<Rightarrow> int \<Rightarrow> int \<Rightarrow> 'a list" where
  "py_slice xs i j =
     (let n = int (length xs);
          i' = (if i < 0 then max (i + n) 0 else min i n);
          j' = (if j < 0 then max (j + n) 0 else min j n)
      in take (nat (j' - i')) (drop (nat i') xs))"

definition np_arange :: "nat \<Rightarrow> int list" where
  "np_arange n = map int [0..<n]"

text \<open>
  The slope that \<^verbatim>\<open>np.polyfit(x, y, deg=1)\<close> returns, for abscissae with at least two
  distinct values (the only data \<^verbatim>\<open>estimate_lambda_CG\<close> passes to it): the ordinary
  least-squares slope when every ordinate is finite, NaN as soon as one is an infinity
  or NaN. numpy raises nothing in either case.
\<close>

definition ols_slope :: "real list \<Rightarrow> real list \<Rightarrow> real" where
  "ols_slope xs ys =
     (let N = real (length xs)
      in (N * sum_list (map2 (*) xs ys) - sum_list xs * sum_list ys)
         / (N * sum_list (map (\<lambda>x. x * x) xs) - sum_list xs * sum_list xs))"

fun fin_value :: "fl \<Rightarrow> real" where
  "fin_value (Fin x) = x"
| "fin_value PInf = 0"
| "fin_value NInf = 0"
| "fin_value NaN = 0"

definition polyfit_slope :: "int list \<Rightarrow> fl list \<Rightarrow> fl" where
  "polyfit_slope x y =
     (if list_all isfinite y then rnd (ols_slope (map real_of_int x) (map fin_value y))
      else NaN)"

definition estimate_lambda_CG ::
  "CGModel \<Rightarrow> ndarray \<Rightarrow> ndarray \<Rightarrow> int \<Rightarrow> int \<Rightarrow> int \<Rightarrow> error + (fl \<times> int list \<times> fl list)" where
  "estimate_lambda_CG m psi0 psi0_prime n_steps fit_start fit_end =
     (case evolve_pair m psi0 psi0_prime n_steps of
        Inl e \<Rightarrow> Inl e
      | Inr (psi_traj, psi_traj_prime, D_n) \<Rightarrow>
          (let n_all = np_arange (length D_n);
               fit_start' = max fit_start 0;
               fit_end' = min fit_end (int (length D_n) - 1)
           in if fit_end' \<le> fit_start' + 1
              then Inl (ValueError window_msg)
              else (let n_fit = py_slice n_all fit_start' fit_end';
                        logD_fit = map np_log (py_slice D_n fit_start' fit_end');
                        slope = polyfit_slope n_fit logD_fit
                    in Inr (slope, n_fit, logD_fit))))"

section \<open>Spectral diagnostics\<close>

text \<open>\<^verbatim>\<open>np.max\<close> of a one-dimensional array: it raises on an empty one.\<close>

definition np_max :: "fl list \<Rightarrow> error + fl" where
  "np_max xs = (case xs of [] \<Rightarrow> Inl (ValueError empty_max_msg) | x # r \<Rightarrow> Inr (foldl fmax x r))"

text \<open>
  \<^verbatim>\<open>np.linalg.matrix_power(a, n)\<close> for \<open>n \<ge> 0\<close>, as numpy computes it: the identity
  for 0, the argument itself for 1, one and two products for 2 and 3, and binary
  decomposition above.
\<close>

function power_loop ::
  "ndarray \<Rightarrow> ndarray option \<Rightarrow> ndarray option \<Rightarrow> nat \<Rightarrow> ndarray option" where
  "power_loop a z result n =
     (if 0 < n then
        (let z' = (case z of None \<Rightarrow> a | Some w \<Rightarrow> matmul w w);
             result' = (if n mod 2 \<noteq> 0
                        then Some (case result of None \<Rightarrow> z' | Some r \<Rightarrow> matmul r z')
                        else result)
         in power_loop a (Some z') result' (n div 2))
      else result)"
  by pat_completeness auto
termination
  by (relation "measure (\<lambda>(a, z, result, n). n)") auto

definition matrix_power :: "ndarray \<Rightarrow> nat \<Rightarrow> ndarray" where
  "matrix_power a n =
     (if n = 0 then eye (shape a ! 0)
      else if n = 1 then a
      else if n = 2 then matmul a a
      else if n = 3 then matmul (matmul a a) a
      else (case power_loop a None None n of Some r \<Rightarrow> r | None \<Rightarrow> eye (shape a ! 0)))"

text \<open>
  \<^verbatim>\<open>np.linalg.svd(A, compute_uv=False)\<close> is LAPACK's; the two functions below take it
  as the parameter \<open>svd\<close>, which returns the singular values or the error it raises.
\<close>

definition operator_norm :: "(ndarray \<Rightarrow> error + fl list) \<Rightarrow> CGModel \<Rightarrow> error + fl" where
  "operator_norm svd m =
     (case svd (T_infty m) of Inl e \<Rightarrow> Inl e | Inr svals \<Rightarrow> np_max svals)"

definition power_norm :: "(ndarray \<Rightarrow> error + fl list) \<Rightarrow> CGModel \<Rightarrow> int \<Rightarrow> error + fl" where
  "power_norm svd m n =
     (if n < 1 then Inl (ValueError power_msg)
      else (let Tn = matrix_power (T_infty m) (nat n)
            in case svd Tn of Inl e \<Rightarrow> Inl e | Inr svals \<Rightarrow> np_max svals))"

section \<open>Predicates of the interface and example inputs\<close>

text \<open>
  The check of \<^verbatim>\<open>__post_init__\<close>, read positively: a two-dimensional square array.
\<close>

definition is_square_2d :: "ndarray \<Rightarrow> bool" where
  "is_square_2d a = (ndim a = 2 \<and> shape a ! 0 = shape a ! 1)"

text \<open>
  The check of \<^verbatim>\<open>evolve\<close>, read positively: a one-dimensional array whose length is
  the dimension of the model.
\<close>

definition valid_state :: "CGModel \<Rightarrow> ndarray \<Rightarrow> bool" where
  "valid_state m psi0 = (ndim psi0 = 1 \<and> shape psi0 ! 0 = shape (T_infty m) ! 0)"

text \<open>Small concrete models and vectors, on which the theorems below are evaluated.\<close>

definition unit_model :: CGModel where
  "unit_model = \<lparr>T_infty = \<lparr>shape = [1, 1], data = [Fin 1]\<rparr>\<rparr>"

definition doubling_model :: CGModel where
  "doubling_model = \<lparr>T_infty = \<lparr>shape = [1, 1], data = [Fin 2]\<rparr>\<rparr>"

definition one_vec :: ndarray where
  "one_vec = \<lparr>shape = [1], data = [Fin 1]\<rparr>"

definition two_vec :: ndarray where
  "two_vec = \<lparr>shape = [1], data = [Fin 2]\<rparr>"

text \<open>A finite float64 value whose double is past the largest one.\<close>

definition huge :: real where
  "huge = 2 ^ 1023"

definition huge_vec :: ndarray where
  "huge_vec = \<lparr>shape = [1], data = [Fin huge]\<rparr>"

definition pair_vec :: ndarray where
  "pair_vec = \<lparr>shape = [2], data = [Fin 1, Fin 1]\<rparr>"

definition two_by_three :: ndarray where
  "two_by_three = \<lparr>shape = [2, 3], data = [Fin 1, Fin 0, Fin 0, Fin 0, Fin 1, Fin 0]\<rparr>"

definition empty_matrix :: ndarray where
  "empty_matrix = \<lparr>shape = [0, 0], data = []\<rparr>"

definition nan_matrix :: ndarray where
  "nan_matrix = \<lparr>shape = [1, 1], data = [NaN]\<rparr>"

section \<open>Validation and propagation in order\<close>

text \<open>
  The same four functions with one piece of state threaded through them: the number of
  propagation steps, that is of executions of \<^verbatim>\<open>psi = self.T_infty @ psi\<close>, performed so
  far. Each function takes the count before the call and returns its outcome together with
  the count after it, also when the outcome is an error, so that what has been computed
  before an exception is raised can be stated. Construction performs no such step.
\<close>

definition post_init_steps :: "ndarray \<Rightarrow> nat \<Rightarrow> (error + CGModel) \<times> nat" where
  "post_init_steps a c =
     (let T = np_array_float a in
      if ndim T \<noteq> 2 \<or> shape T ! 0 \<noteq> shape T ! 1
      then (Inl (ValueError square_msg), c)
      else (Inr \<lparr>T_infty = T\<rparr>, c))"

fun evolve_loop_steps ::
  "ndarray \<Rightarrow> nat \<Rightarrow> fl list \<Rightarrow> fl list list \<Rightarrow> nat \<Rightarrow> fl list list \<times> nat" where
  "evolve_loop_steps T 0 psi traj c = (traj, c)"
| "evolve_loop_steps T (Suc k) psi traj c =
     (let psi' = matvec T psi in evolve_loop_steps T k psi' (traj @ [psi']) (Suc c))"

definition evolve_steps ::
  "CGModel \<Rightarrow> ndarray \<Rightarrow> int \<Rightarrow> nat \<Rightarrow> (error + fl list list) \<times> nat" where
  "evolve_steps m psi0 n_steps c =
     (let psi = np_array_float psi0 in
      if ndim psi \<noteq> 1 \<or> shape psi ! 0 \<noteq> shape (T_infty m) ! 0
      then (Inl (ValueError psi0_msg), c)
      else (case evolve_loop_steps (T_infty m) (range_count n_steps) (data psi) [data psi] c of
              (traj, c') \<Rightarrow> (Inr traj, c')))"

definition evolve_pair_steps ::
  "CGModel \<Rightarrow> ndarray \<Rightarrow> ndarray \<Rightarrow> int \<Rightarrow> nat
     \<Rightarrow> (error + (fl list list \<times> fl list list \<times> fl list)) \<times> nat" where
  "evolve_pair_steps m psi0 psi0_prime n_steps c =
     (case evolve_steps m psi0 n_steps c of
        (Inl e, c1) \<Rightarrow> (Inl e, c1)
      | (Inr psi_traj, c1) \<Rightarrow>
          (case evolve_steps m psi0_prime n_steps c1 of
             (Inl e, c2) \<Rightarrow> (Inl e, c2)
           | (Inr psi_traj_prime, c2) \<Rightarrow>
               (Inr (psi_traj, psi_traj_prime, norm_axis1 (array_sub psi_traj psi_traj_prime)),
                c2)))"

definition estimate_lambda_CG_steps ::
  "CGModel \<Rightarrow> ndarray \<Rightarrow> ndarray \<Rightarrow> int \<Rightarrow> int \<Rightarrow> int \<Rightarrow> nat
     \<Rightarrow> (error + (fl \<times> int list \<times> fl list)) \<times> nat" where
  "estimate_lambda_CG_steps m psi0 psi0_prime n_steps fit_start fit_end c =
     (case evolve_pair_steps m psi0 psi0_prime n_steps c of
        (Inl e, c1) \<Rightarrow> (Inl e, c1)
      | (Inr (psi_traj, psi_traj_prime, D_n), c1) \<Rightarrow>
          (let n_all = np_arange (length D_n);
               fit_start' = max fit_start 0;
               fit_end' = min fit_end (int (length D_n) - 1)
           in if fit_end' \<le> fit_start' + 1
              then (Inl (ValueError window_msg), c1)
              else (let n_fit = py_slice n_all fit_start' fit_end';
                        logD_fit = map np_log (py_slice D_n fit_start' fit_end');
                        slope = polyfit_slope n_fit logD_fit
                    in (Inr (slope, n_fit, logD_fit), c1))))"

section \<open>Facts about the arithmetic and the example inputs\<close>

lemma rnd_zero: "rnd 0 = Fin 0"
  by (simp add: rnd_def overflow_threshold_def)

lemma overflow_threshold_big: "4 < overflow_threshold"
  by (simp add: overflow_threshold_def)

lemma rnd_small: "\<bar>x\<bar> \<le> 4 \<Longrightarrow> rnd x = Fin x"
  using overflow_threshold_big by (auto simp add: rnd_def)

lemma rnd_overflow: "rnd (2 * huge) = PInf"
  by (simp add: rnd_def overflow_threshold_def huge_def)

lemma fsub_self: "isfinite x \<Longrightarrow> fsub x x = Fin 0"
  by (cases x) (simp_all add: fsub_def rnd_zero)

lemma foldl_fadd_zeros: "foldl fadd (Fin 0) (replicate k (Fin 0)) = Fin 0"
  by (induction k) (simp_all add: rnd_zero)

lemmas example_defs =
  unit_model_def doubling_model_def one_vec_def two_vec_def huge_vec_def pair_vec_def
  two_by_three_def empty_matrix_def nan_matrix_def

lemma valid_examples:
  "valid_state unit_model one_vec" "valid_state unit_model two_vec"
  "valid_state doubling_model one_vec" "valid_state doubling_model huge_vec"
  "\<not> valid_state unit_model pair_vec"
  by (simp_all add: valid_state_def ndim_def example_defs)

section \<open>The trajectory of \<^verbatim>\<open>evolve\<close>\<close>

text \<open>
  The loop appends the iterates of \<open>matvec T\<close> to the list it is given, so a trajectory is
  the list of the first iterates of the initial vector.
\<close>

lemma evolve_loop_iterates:
  "evolve_loop T k psi traj = traj @ map (\<lambda>j. (matvec T ^^ Suc j) psi) [0..<k]"
proof (induction k arbitrary: psi traj)
  case 0
  then show ?case by simp
next
  case (Suc k)
  have "map (\<lambda>j. (matvec T ^^ Suc j) psi) [0..<Suc k]
        = matvec T psi # map (\<lambda>j. (matvec T ^^ Suc j) (matvec T psi)) [0..<k]"
    by (simp add: upt_conv_Cons map_Suc_upt [symmetric] funpow_swap1 del: upt_Suc)
  then show ?case
    using Suc.IH [of "matvec T psi" "traj @ [matvec T psi]"] by (simp add: Let_def del: upt_Suc funpow.simps)
qed

lemma evolve_loop_closed:
  "evolve_loop T k psi [psi] = map (\<lambda>j. (matvec T ^^ j) psi) [0..<Suc k]"
proof -
  have "map (\<lambda>j. (matvec T ^^ j) psi) [0..<Suc k]
        = psi # map (\<lambda>j. (matvec T ^^ Suc j) psi) [0..<k]"
    by (simp add: upt_conv_Cons map_Suc_upt [symmetric] del: upt_Suc funpow.simps)
  then show ?thesis by (simp add: evolve_loop_iterates del: upt_Suc funpow.simps)
qed

lemma evolve_valid:
  "valid_state m psi0 \<Longrightarrow>
   evolve m psi0 n = Inr (map (\<lambda>j. (matvec (T_infty m) ^^ j) (data psi0)) [0..<Suc (range_count n)])"
  by (simp add: evolve_def valid_state_def np_array_float_def evolve_loop_closed del: upt_Suc)

lemma evolve_invalid:
  "\<not> valid_state m psi0 \<Longrightarrow> evolve m psi0 n = Inl (ValueError psi0_msg)"
  by (auto simp add: evolve_def valid_state_def np_array_float_def)

lemma evolve_Inr_length:
  assumes "evolve m psi0 n = Inr traj"
  shows "length traj = Suc (range_count n)"
proof (cases "valid_state m psi0")
  case True
  from evolve_valid [OF True, of n] assms show ?thesis by (auto simp del: upt_Suc)
next
  case False
  from evolve_invalid [OF False, of n] assms show ?thesis by simp
qed

text \<open>For a well-formed initial vector every row of the trajectory has the model's dimension.\<close>

lemma funpow_matvec_length:
  "length v = shape T ! 0 \<Longrightarrow> length ((matvec T ^^ j) v) = shape T ! 0"
  by (cases j) (simp_all add: matvec_def)

lemma evolve_rows_length:
  assumes "valid_state m psi0" and "wf_ndarray psi0" and "evolve m psi0 n = Inr traj"
  shows "list_all (\<lambda>row. length row = shape (T_infty m) ! 0) traj"
proof -
  have "shape psi0 = [shape psi0 ! 0]"
    using assms(1) by (cases "shape psi0") (simp_all add: valid_state_def ndim_def)
  then have "prod_list (shape psi0) = shape psi0 ! 0"
    by (metis list.simps(8,9) mult.right_neutral prod_list.Cons prod_list.Nil)
  then have "length (data psi0) = shape (T_infty m) ! 0"
    using assms(1,2) by (simp add: valid_state_def wf_ndarray_def)
  then show ?thesis
    using evolve_valid [OF assms(1), of n] assms(3)
    by (auto simp add: list_all_iff funpow_matvec_length simp del: upt_Suc funpow.simps)
qed

lemma matvec_unit: "matvec (T_infty unit_model) [Fin x] = [rnd x]"
  by (simp add: matvec_def mat_row_def dot_def fsum_def unit_model_def rnd_def)

lemma matvec_doubling: "matvec (T_infty doubling_model) [Fin x] = [rnd (2 * x)]"
  by (simp add: matvec_def mat_row_def dot_def fsum_def doubling_model_def rnd_def)

lemma evolve_unit_one:
  "evolve unit_model one_vec 3 = Inr [[Fin 1], [Fin 1], [Fin 1], [Fin 1]]"
  using evolve_valid [OF valid_examples(1), of 3]
  by (simp add: range_count_def upt_rec eval_nat_numeral matvec_unit rnd_small one_vec_def)

lemma evolve_unit_two:
  "evolve unit_model two_vec 3 = Inr [[Fin 2], [Fin 2], [Fin 2], [Fin 2]]"
  using evolve_valid [OF valid_examples(2), of 3]
  by (simp add: range_count_def upt_rec eval_nat_numeral matvec_unit rnd_small two_vec_def)

lemma evolve_doubling_one:
  "evolve doubling_model one_vec 2 = Inr [[Fin 1], [Fin 2], [Fin 4]]"
  using evolve_valid [OF valid_examples(3), of 2]
  by (simp add: range_count_def upt_rec eval_nat_numeral matvec_doubling rnd_small one_vec_def)

lemma evolve_doubling_huge:
  "evolve doubling_model huge_vec 1 = Inr [[Fin huge], [PInf]]"
  using evolve_valid [OF valid_examples(4), of 1]
  by (simp add: range_count_def upt_rec matvec_doubling rnd_overflow huge_vec_def)

section \<open>The pair of trajectories and its distances\<close>

lemma evolve_pair_valid:
  assumes "valid_state m psi0" and "valid_state m psi0_prime"
  shows "\<exists>t t' D. evolve_pair m psi0 psi0_prime n = Inr (t, t', D) \<and>
           evolve m psi0 n = Inr t \<and> evolve m psi0_prime n = Inr t' \<and>
           D = norm_axis1 (array_sub t t') \<and> length D = Suc (range_count n)"
  using assms
  by (simp add: evolve_pair_def evolve_valid norm_axis1_def array_sub_def del: upt_Suc)

lemma evolve_pair_invalid:
  assumes "\<not> valid_state m psi0 \<or> \<not> valid_state m psi0_prime"
  shows "evolve_pair m psi0 psi0_prime n = Inl (ValueError psi0_msg)"
proof (cases "valid_state m psi0")
  case True
  with assms have "\<not> valid_state m psi0_prime" by simp
  then show ?thesis using True
    by (simp add: evolve_pair_def evolve_valid evolve_invalid del: upt_Suc)
next
  case False
  then show ?thesis by (simp add: evolve_pair_def evolve_invalid)
qed

lemma evolve_pair_Inr:
  assumes "evolve_pair m psi0 psi0_prime n = Inr (t, t', D)"
  shows "valid_state m psi0" and "valid_state m psi0_prime"
    and "length D = Suc (range_count n)"
proof -
  have v: "valid_state m psi0 \<and> valid_state m psi0_prime"
  proof (rule ccontr)
    assume "\<not> ?thesis"
    then have "evolve_pair m psi0 psi0_prime n = Inl (ValueError psi0_msg)"
      by (intro evolve_pair_invalid) simp
    with assms show False by simp
  qed
  then show "valid_state m psi0" and "valid_state m psi0_prime" by simp_all
  from v evolve_pair_valid [of m psi0 psi0_prime n] assms
  show "length D = Suc (range_count n)" by auto
qed

lemma row_norm_self:
  assumes "list_all isfinite xs"
  shows "row_norm (map2 fsub xs xs) = Fin 0"
proof -
  have "map2 fsub xs xs = map (\<lambda>x. fsub x x) xs"
    by (induction xs) simp_all
  also have "\<dots> = map (\<lambda>x. Fin 0) xs"
    using assms by (intro map_cong refl fsub_self) (simp add: list_all_iff)
  finally have "map2 fsub xs xs = replicate (length xs) (Fin 0)"
    by (simp add: map_replicate_const)
  then show ?thesis
    by (simp add: row_norm_def fsum_def rnd_zero foldl_fadd_zeros)
qed

lemma norm_axis1_self:
  assumes "list_all (list_all isfinite) X"
  shows "norm_axis1 (array_sub X X) = replicate (length X) (Fin 0)"
  using assms
proof (induction X)
  case Nil
  then show ?case by (simp add: norm_axis1_def array_sub_def)
next
  case (Cons r X)
  then show ?case
    using row_norm_self [of r] by (simp add: norm_axis1_def array_sub_def)
qed

lemma row_norm_zero: "row_norm [Fin 0] = Fin 0"
  by (simp add: row_norm_def fsum_def rnd_small)

lemma row_norm_minus_one: "row_norm [Fin (- 1)] = Fin 1"
  by (simp add: row_norm_def fsum_def rnd_small)

lemma evolve_pair_unit_same:
  "evolve_pair unit_model one_vec one_vec 3 =
     Inr ([[Fin 1], [Fin 1], [Fin 1], [Fin 1]], [[Fin 1], [Fin 1], [Fin 1], [Fin 1]],
          [Fin 0, Fin 0, Fin 0, Fin 0])"
  by (simp add: evolve_pair_def evolve_unit_one norm_axis1_def array_sub_def fsub_def
        rnd_small row_norm_zero)

lemma evolve_pair_unit_diff:
  "evolve_pair unit_model one_vec two_vec 3 =
     Inr ([[Fin 1], [Fin 1], [Fin 1], [Fin 1]], [[Fin 2], [Fin 2], [Fin 2], [Fin 2]],
          [Fin 1, Fin 1, Fin 1, Fin 1])"
  by (simp add: evolve_pair_def evolve_unit_one evolve_unit_two norm_axis1_def array_sub_def
        fsub_def rnd_small row_norm_minus_one)

section \<open>Slices and the fit window\<close>

lemma upto_conv_map_upt:
  "0 \<le> a \<Longrightarrow> [a..b - 1] = map int [nat a..<nat b]"
  by (rule nth_equalityI) (auto simp add: nth_upto)

lemma py_slice_plain:
  assumes "0 \<le> a" and "a \<le> b" and "b \<le> int (length xs)"
  shows "py_slice xs a b = take (nat (b - a)) (drop (nat a) xs)"
  using assms by (simp add: py_slice_def Let_def min_def)

lemma take_drop_conv_map_nth:
  assumes "i + k \<le> length xs"
  shows "take k (drop i xs) = map (\<lambda>j. xs ! j) [i..<i + k]"
  using assms by (intro nth_equalityI) (auto simp add: add.commute)

lemma py_slice_nths:
  assumes "0 \<le> a" and "a \<le> b" and "b \<le> int (length xs)"
  shows "py_slice xs a b = map (\<lambda>k. xs ! nat k) [a..b - 1]"
proof -
  have "nat a + nat (b - a) \<le> length xs" using assms by linarith
  then have "take (nat (b - a)) (drop (nat a) xs) = map (\<lambda>j. xs ! j) [nat a..<nat a + nat (b - a)]"
    by (rule take_drop_conv_map_nth)
  moreover have "nat a + nat (b - a) = nat b" using assms by linarith
  ultimately show ?thesis
    using assms by (simp add: py_slice_plain upto_conv_map_upt comp_def)
qed

lemma py_slice_arange:
  assumes "0 \<le> a" and "a \<le> b" and "b \<le> int L"
  shows "py_slice (np_arange L) a b = [a..b - 1]"
proof -
  have "py_slice (np_arange L) a b = map (\<lambda>k. np_arange L ! nat k) [a..b - 1]"
    using assms by (simp add: py_slice_nths np_arange_def)
  also have "\<dots> = map (\<lambda>k. k) [a..b - 1]"
  proof (rule map_cong [OF refl])
    fix k assume "k \<in> set [a..b - 1]"
    then have "0 \<le> k" "nat k < L" using assms by auto
    then show "np_arange L ! nat k = k" by (simp add: np_arange_def)
  qed
  finally show ?thesis by simp
qed

text \<open>
  Once the pair has been evolved, \<^verbatim>\<open>estimate_lambda_CG\<close> is decided by the clamped
  window alone: with \<open>a = max fit_start 0\<close> and \<open>b = min fit_end (len(D_n) - 1)\<close> it raises
  when \<open>b \<le> a + 1\<close> and otherwise fits the logarithms of \<open>D_n[a], \<dots>, D_n[b - 1]\<close>.
\<close>

lemma estimate_unfold:
  assumes "evolve_pair m psi0 psi0_prime n = Inr (t, t', D)"
  shows "estimate_lambda_CG m psi0 psi0_prime n fs fe =
     (if min fe (int (range_count n)) \<le> max fs 0 + 1 then Inl (ValueError window_msg)
      else Inr (polyfit_slope [max fs 0..min fe (int (range_count n)) - 1]
                  (map (\<lambda>k. np_log (D ! nat k)) [max fs 0..min fe (int (range_count n)) - 1]),
                [max fs 0..min fe (int (range_count n)) - 1],
                map (\<lambda>k. np_log (D ! nat k)) [max fs 0..min fe (int (range_count n)) - 1]))"
proof -
  have len: "length D = Suc (range_count n)" using assms by (rule evolve_pair_Inr)
  show ?thesis
  proof (cases "min fe (int (range_count n)) \<le> max fs 0 + 1")
    case True
    then show ?thesis using assms len by (simp add: estimate_lambda_CG_def)
  next
    case False
    let ?a = "max fs 0" and ?b = "min fe (int (range_count n))"
    have b: "0 \<le> ?a" "?a \<le> ?b" "?b \<le> int (length D)" using False len by auto
    have 1: "py_slice (np_arange (length D)) ?a ?b = [?a..?b - 1]"
      using b by (rule py_slice_arange)
    have 2: "py_slice D ?a ?b = map (\<lambda>k. D ! nat k) [?a..?b - 1]"
      using b by (rule py_slice_nths)
    show ?thesis using False assms len 1 2
      by (simp add: estimate_lambda_CG_def Let_def comp_def)
  qed
qed

lemma estimate_invalid:
  assumes "\<not> valid_state m psi0 \<or> \<not> valid_state m psi0_prime"
  shows "estimate_lambda_CG m psi0 psi0_prime n fs fe = Inl (ValueError psi0_msg)"
  using evolve_pair_invalid [OF assms] by (simp add: estimate_lambda_CG_def)

section \<open>The step count\<close>

text \<open>
  The functions with the step count return the outcomes of the functions without it, and
  the count grows by one for every iteration of a loop that is entered.
\<close>

lemma post_init_steps_eq: "post_init_steps a c = (post_init a, c)"
  by (simp add: post_init_steps_def post_init_def Let_def np_array_float_def)

lemma evolve_loop_steps_eq:
  "evolve_loop_steps T k psi traj c = (evolve_loop T k psi traj, c + k)"
  by (induction k arbitrary: psi traj c) (simp_all add: Let_def)

lemma evolve_steps_eq:
  "evolve_steps m psi0 n c =
     (evolve m psi0 n, if valid_state m psi0 then c + range_count n else c)"
  by (simp add: evolve_steps_def evolve_def valid_state_def Let_def evolve_loop_steps_eq
        np_array_float_def)

lemma evolve_pair_steps_eq:
  "evolve_pair_steps m psi0 psi0_prime n c =
     (evolve_pair m psi0 psi0_prime n,
      if \<not> valid_state m psi0 then c
      else if \<not> valid_state m psi0_prime then c + range_count n
      else c + 2 * range_count n)"
proof (cases "valid_state m psi0")
  case False
  then show ?thesis
    by (simp add: evolve_pair_steps_def evolve_pair_def evolve_steps_eq evolve_invalid)
next
  case v: True
  show ?thesis
  proof (cases "valid_state m psi0_prime")
    case False
    then show ?thesis using v
      by (simp add: evolve_pair_steps_def evolve_pair_def evolve_steps_eq evolve_invalid
            evolve_valid del: upt_Suc)
  next
    case True
    then show ?thesis using v
      by (simp add: evolve_pair_steps_def evolve_pair_def evolve_steps_eq evolve_valid
            del: upt_Suc)
  qed
qed

lemma estimate_lambda_CG_steps_eq:
  "estimate_lambda_CG_steps m psi0 psi0_prime n fs fe c =
     (estimate_lambda_CG m psi0 psi0_prime n fs fe, snd (evolve_pair_steps m psi0 psi0_prime n c))"
  by (cases "evolve_pair m psi0 psi0_prime n")
     (auto simp add: estimate_lambda_CG_steps_def estimate_lambda_CG_def evolve_pair_steps_eq
        Let_def split: prod.splits)

section \<open>The loop of \<^verbatim>\<open>matrix_power\<close>\<close>

text \<open>
  For a positive exponent the binary decomposition always leaves a result, so the
  fallback of \<open>matrix_power\<close> is never taken.
\<close>

lemma power_loop_Some:
  "power_loop a z (Some r) n \<noteq> None"
proof (induction n arbitrary: z r rule: less_induct)
  case (less n)
  show ?case
  proof (cases "0 < n")
    case False
    then show ?thesis by (simp only: power_loop.simps [of a z "Some r" n] if_False) simp
  next
    case True
    then have "n div 2 < n" by simp
    from less.IH [OF this] True show ?thesis
      by (simp only: power_loop.simps [of a z "Some r" n] if_True Let_def split: if_split) simp
  qed
qed


lemma power_loop_result:
  "0 < n \<Longrightarrow> power_loop a z None n \<noteq> None"
proof (induction n arbitrary: z rule: less_induct)
  case (less n)
  have step: "n div 2 < n" using less.prems by simp
  show ?case
  proof (cases "n mod 2 = 0")
    case True
    then have "0 < n div 2" using less.prems by presburger
    from less.IH [OF step this] less.prems True show ?thesis
      by (simp only: power_loop.simps [of a z None n] if_True if_False Let_def simp_thms)
  next
    case False
    with less.prems show ?thesis
      by (simp only: power_loop.simps [of a z None n] if_True Let_def simp_thms power_loop_Some
            not_False_eq_True)
  qed
qed

section \<open>The claims\<close>

subsection \<open>C1: distances inside the fit window that are not positive\<close>

text \<open>
  Claim C1 asks \<^verbatim>\<open>estimate_lambda_CG\<close> to fail when a distance inside the clamped
  window is not positive. The function has no such check: the distances of the window go
  to \<^verbatim>\<open>np.log\<close> and \<^verbatim>\<open>np.polyfit\<close> as they are. What holds instead (C1, amended): when
  the vectors are valid, the clamped window \<open>[max fit_start 0, min fit_end n_steps)\<close> has
  at least two indices and the distance at an index \<open>k\<close> of the window is a number
  \<open>x \<le> 0\<close>, the call returns; no point is dropped or clamped: the index array is the
  whole window, the logarithm returned for \<open>k\<close> is \<open>-inf\<close> for \<open>x = 0\<close> (NaN for
  \<open>x < 0\<close>), and the slope computed from these values is NaN.
\<close>

theorem estimate_zero_distance_returns:
  assumes "evolve_pair m psi0 psi0_prime n_steps = Inr (t, t', D)"
    and "0 \<le> n_steps"
    and "max fit_start 0 + 1 < min fit_end n_steps"
    and "max fit_start 0 \<le> k" and "k < min fit_end n_steps"
    and "D ! nat k = Fin x" and "x \<le> 0"
  shows "\<exists>n_fit logD_fit.
           estimate_lambda_CG m psi0 psi0_prime n_steps fit_start fit_end = Inr (NaN, n_fit, logD_fit) \<and>
           n_fit = [max fit_start 0..min fit_end n_steps - 1] \<and>
           length logD_fit = length n_fit \<and>
           logD_fit ! nat (k - max fit_start 0) = (if x = 0 then NInf else NaN)"
proof -
  let ?a = "max fit_start 0" and ?b = "min fit_end n_steps"
  let ?n_fit = "[?a..?b - 1]"
  let ?logD = "map (\<lambda>j. np_log (D ! nat j)) ?n_fit"
  have rc: "int (range_count n_steps) = n_steps" using assms(2) by (simp add: range_count_def)
  have idx: "nat (k - ?a) < length ?n_fit" using assms(4,5) by simp
  have nth: "?n_fit ! nat (k - ?a) = k" using assms(4,5) by (simp add: nth_upto)
  have at_k: "?logD ! nat (k - ?a) = (if x = 0 then NInf else NaN)"
    using idx nth assms(6,7) by (simp add: nth_map del: length_upto)
  have "\<not> isfinite (?logD ! nat (k - ?a))" by (simp only: at_k) simp
  moreover have "nat (k - ?a) < length ?logD" using idx by simp
  ultimately have "\<not> list_all isfinite ?logD"
    unfolding list_all_length by blast
  then have "polyfit_slope ?n_fit ?logD = NaN" by (simp add: polyfit_slope_def)
  then have "estimate_lambda_CG m psi0 psi0_prime n_steps fit_start fit_end = Inr (NaN, ?n_fit, ?logD)"
    using estimate_unfold [OF assms(1), of fit_start fit_end] assms(3) by (simp add: rc)
  then show ?thesis using at_k by simp
qed

theorem estimate_zero_distance_returns_witness:
  "evolve_pair unit_model one_vec one_vec 3 =
     Inr ([[Fin 1], [Fin 1], [Fin 1], [Fin 1]], [[Fin 1], [Fin 1], [Fin 1], [Fin 1]],
          [Fin 0, Fin 0, Fin 0, Fin 0]) \<and>
   [Fin 0, Fin 0, Fin 0, Fin 0] ! nat 1 = Fin 0 \<and>
   (\<exists>n_fit logD_fit.
      estimate_lambda_CG unit_model one_vec one_vec 3 (- 1) 7 = Inr (NaN, n_fit, logD_fit) \<and>
      n_fit = [0, 1, 2] \<and> length logD_fit = 3 \<and> logD_fit ! 1 = NInf)"
proof -
  have d: "[Fin 0, Fin 0, Fin 0, Fin 0] ! nat 1 = Fin 0" by simp
  have "\<exists>n_fit logD_fit.
          estimate_lambda_CG unit_model one_vec one_vec 3 (- 1) 7 = Inr (NaN, n_fit, logD_fit) \<and>
          n_fit = [max (- 1) 0..min 7 3 - 1] \<and>
          length logD_fit = length n_fit \<and>
          logD_fit ! nat (1 - max (- 1) 0) = (if (0::real) = 0 then NInf else NaN)"
    using evolve_pair_unit_same _ _ _ _ d
    by (rule estimate_zero_distance_returns) simp_all
  then show ?thesis using evolve_pair_unit_same by (auto simp add: upto_rec1)
qed

text \<open>
  The claim as stated fails for the identity on one dimension, two equal initial vectors,
  three steps and the window \<open>[0, 3)\<close>: every distance is zero and the call returns a NaN
  slope with three logarithms \<open>-inf\<close>.
\<close>

theorem estimate_zero_distance_counterexample:
  "estimate_lambda_CG unit_model one_vec one_vec 3 0 3 = Inr (NaN, [0, 1, 2], [NInf, NInf, NInf])"
  by (simp add: estimate_lambda_CG_def evolve_pair_unit_same np_arange_def py_slice_def
        polyfit_slope_def upt_rec)

subsection \<open>C2: what construction guarantees\<close>




subsection \<open>C3: the trajectory\<close>

text \<open>
  Claim C3. For every model, every one-dimensional initial vector \<open>psi0\<close> of the model's
  dimension and every \<open>n_steps \<ge> 0\<close>, \<^verbatim>\<open>evolve\<close> returns exactly \<open>n_steps + 1\<close> vectors,
  the first is \<open>psi0\<close>, and each following one is \<open>T @\<close> its predecessor; for
  \<open>n_steps = 0\<close> the result is the single vector \<open>psi0\<close>.
\<close>

theorem evolve_trajectory:
  assumes "valid_state m psi0" and "0 \<le> n_steps"
  shows "\<exists>traj. evolve m psi0 n_steps = Inr traj \<and>
           length traj = nat n_steps + 1 \<and>
           traj ! 0 = data psi0 \<and>
           (\<forall>k < nat n_steps. traj ! Suc k = matvec (T_infty m) (traj ! k)) \<and>
           (n_steps = 0 \<longrightarrow> traj = [data psi0])"
proof -
  let ?f = "\<lambda>j. (matvec (T_infty m) ^^ j) (data psi0)"
  let ?traj = "map ?f [0..<Suc (range_count n_steps)]"
  have rc: "range_count n_steps = nat n_steps"
    using assms(2) by (simp add: range_count_def)
  have 1: "evolve m psi0 n_steps = Inr ?traj"
    using assms(1) by (rule evolve_valid)
  have 2: "length ?traj = nat n_steps + 1"
    by (simp add: rc del: upt_Suc)
  have 3: "?traj ! 0 = data psi0"
    by (simp add: nth_map del: upt_Suc)
  have 4: "?traj ! Suc k = matvec (T_infty m) (?traj ! k)" if "k < nat n_steps" for k
    using that by (simp add: rc nth_map del: upt_Suc)
  have 5: "?traj = [data psi0]" if "n_steps = 0"
    using that by (simp add: range_count_def)
  show ?thesis
  proof (intro exI conjI allI impI)
    show "evolve m psi0 n_steps = Inr ?traj" by (rule 1)
    show "length ?traj = nat n_steps + 1" by (rule 2)
    show "?traj ! 0 = data psi0" by (rule 3)
    show "?traj ! Suc k = matvec (T_infty m) (?traj ! k)" if "k < nat n_steps" for k
      using that by (rule 4)
    show "?traj = [data psi0]" if "n_steps = 0"
      using that by (rule 5)
  qed
qed

theorem evolve_trajectory_witness:
  "valid_state doubling_model one_vec \<and>
   (\<exists>traj. evolve doubling_model one_vec 2 = Inr traj \<and> length traj = 3 \<and>
      traj ! 0 = [Fin 1] \<and>
      traj ! 1 = matvec (T_infty doubling_model) (traj ! 0) \<and>
      traj ! 2 = matvec (T_infty doubling_model) (traj ! 1))"
proof -
  have v: "valid_state doubling_model one_vec" by (rule valid_examples)
  from evolve_trajectory [OF v, of 2]
  obtain traj where t: "evolve doubling_model one_vec 2 = Inr traj" "length traj = nat 2 + 1"
    "traj ! 0 = data one_vec"
    "\<forall>k < nat 2. traj ! Suc k = matvec (T_infty doubling_model) (traj ! k)"
    by auto
  from t(4) have "traj ! Suc 0 = matvec (T_infty doubling_model) (traj ! 0)"
    and "traj ! Suc (Suc 0) = matvec (T_infty doubling_model) (traj ! Suc 0)"
    by simp_all
  then show ?thesis using v t(1,2,3) by (auto simp add: one_vec_def eval_nat_numeral)
qed

subsection \<open>C4: shape errors\<close>

text \<open>
  Claim C4 states which inputs raise the shape error and that it is raised before any
  computation. The first part holds; the second holds for construction and for
  \<^verbatim>\<open>evolve\<close>, but \<^verbatim>\<open>evolve_pair\<close> checks its second vector only inside the second call of
  \<^verbatim>\<open>evolve\<close>, after the first trajectory has been built. What holds (C4, amended):
  construction raises the shape error exactly when the input is not a two-dimensional
  square array; \<^verbatim>\<open>evolve\<close>, \<^verbatim>\<open>evolve_pair\<close> and \<^verbatim>\<open>estimate_lambda_CG\<close> raise theirs exactly
  when an initial vector is not one-dimensional of the model's dimension. Construction and
  \<^verbatim>\<open>evolve\<close> raise it before any propagation step. \<^verbatim>\<open>evolve_pair\<close> and
  \<^verbatim>\<open>estimate_lambda_CG\<close> raise it before any propagation step when the first vector is the
  offending one, and after the \<open>n_steps\<close> propagation steps of the first trajectory when
  only the second is. With two valid vectors both trajectories are computed.
\<close>

theorem shape_errors:
  "(post_init a = Inl (ValueError square_msg) \<longleftrightarrow> \<not> is_square_2d a) \<and>
   (isl (post_init a) \<longleftrightarrow> \<not> is_square_2d a) \<and>
   (evolve m v n = Inl (ValueError psi0_msg) \<longleftrightarrow> \<not> valid_state m v) \<and>
   (isl (evolve m v n) \<longleftrightarrow> \<not> valid_state m v) \<and>
   (evolve_pair m v w n = Inl (ValueError psi0_msg) \<longleftrightarrow> \<not> valid_state m v \<or> \<not> valid_state m w) \<and>
   (isl (evolve_pair m v w n) \<longleftrightarrow> \<not> valid_state m v \<or> \<not> valid_state m w) \<and>
   (estimate_lambda_CG m v w n fs fe = Inl (ValueError psi0_msg)
      \<longleftrightarrow> \<not> valid_state m v \<or> \<not> valid_state m w) \<and>
   post_init_steps a c = (post_init a, c) \<and>
   evolve_steps m v n c = (evolve m v n, if valid_state m v then c + range_count n else c) \<and>
   evolve_pair_steps m v w n c =
     (evolve_pair m v w n,
      if \<not> valid_state m v then c
      else if \<not> valid_state m w then c + range_count n
      else c + 2 * range_count n) \<and>
   estimate_lambda_CG_steps m v w n fs fe c =
     (estimate_lambda_CG m v w n fs fe,
      if \<not> valid_state m v then c
      else if \<not> valid_state m w then c + range_count n
      else c + 2 * range_count n)"
proof -
  have c: "post_init a = (if is_square_2d a then Inr \<lparr>T_infty = a\<rparr> else Inl (ValueError square_msg))"
    by (simp add: post_init_def is_square_2d_def np_array_float_def)
  have e: "evolve m v n = Inl (ValueError psi0_msg) \<longleftrightarrow> \<not> valid_state m v"
          "isl (evolve m v n) \<longleftrightarrow> \<not> valid_state m v"
    using evolve_valid [of m v n] evolve_invalid [of m v n] by (cases "valid_state m v"; simp del: upt_Suc)+
  have p: "evolve_pair m v w n = Inl (ValueError psi0_msg) \<longleftrightarrow> \<not> valid_state m v \<or> \<not> valid_state m w"
          "isl (evolve_pair m v w n) \<longleftrightarrow> \<not> valid_state m v \<or> \<not> valid_state m w"
    using evolve_pair_valid [of m v w n] evolve_pair_invalid [of m v w n]
    by (cases "valid_state m v \<and> valid_state m w"; auto)+
  have s: "estimate_lambda_CG m v w n fs fe = Inl (ValueError psi0_msg)
             \<longleftrightarrow> \<not> valid_state m v \<or> \<not> valid_state m w"
  proof (cases "valid_state m v \<and> valid_state m w")
    case True
    then obtain t t' D where ep: "evolve_pair m v w n = Inr (t, t', D)"
      using evolve_pair_valid [of m v w n] by blast
    have "window_msg \<noteq> psi0_msg" by (simp add: window_msg_def psi0_msg_def)
    then show ?thesis using True estimate_unfold [OF ep, of fs fe] by simp
  next
    case False
    then show ?thesis using estimate_invalid [of m v w n fs fe] by auto
  qed
  have t: "estimate_lambda_CG_steps m v w n fs fe c =
     (estimate_lambda_CG m v w n fs fe,
      if \<not> valid_state m v then c
      else if \<not> valid_state m w then c + range_count n
      else c + 2 * range_count n)"
    by (simp only: estimate_lambda_CG_steps_eq evolve_pair_steps_eq snd_conv)
  show ?thesis
    by (intro conjI)
       (simp_all only: c e p s t post_init_steps_eq evolve_steps_eq evolve_pair_steps_eq,
        simp_all)
qed

theorem shape_errors_witness:
  "\<not> is_square_2d two_by_three \<and>
   post_init two_by_three = Inl (ValueError square_msg) \<and>
   post_init_steps two_by_three 0 = (Inl (ValueError square_msg), 0) \<and>
   \<not> valid_state unit_model pair_vec \<and>
   evolve unit_model pair_vec 5 = Inl (ValueError psi0_msg) \<and>
   evolve_steps unit_model pair_vec 5 0 = (Inl (ValueError psi0_msg), 0) \<and>
   evolve_pair_steps unit_model pair_vec one_vec 5 0 = (Inl (ValueError psi0_msg), 0) \<and>
   evolve_pair_steps unit_model one_vec pair_vec 5 0 = (Inl (ValueError psi0_msg), 5) \<and>
   estimate_lambda_CG unit_model one_vec pair_vec 5 0 3 = Inl (ValueError psi0_msg) \<and>
   valid_state unit_model one_vec \<and>
   \<not> isl (evolve unit_model one_vec 5)"
proof -
  have 1: "\<not> is_square_2d two_by_three"
    by (simp add: is_square_2d_def ndim_def two_by_three_def)
  have r: "range_count 5 = 5" by (simp add: range_count_def)
  note a = shape_errors [of two_by_three unit_model pair_vec 5 one_vec 0 3 0]
  note b = shape_errors [of two_by_three unit_model one_vec 5 pair_vec 0 3 0]
  have pi: "post_init two_by_three = Inl (ValueError square_msg)"
    using a 1 by blast
  have ev: "evolve unit_model pair_vec 5 = Inl (ValueError psi0_msg)"
    using a valid_examples(5) by blast
  have ep1: "evolve_pair unit_model pair_vec one_vec 5 = Inl (ValueError psi0_msg)"
    using a valid_examples(5) by blast
  have ep2: "evolve_pair unit_model one_vec pair_vec 5 = Inl (ValueError psi0_msg)"
    using b valid_examples(5) by blast
  have es: "estimate_lambda_CG unit_model one_vec pair_vec 5 0 3 = Inl (ValueError psi0_msg)"
    using b valid_examples(5) by blast
  have ok: "\<not> isl (evolve unit_model one_vec 5)"
    using b valid_examples(1) by blast
  have s1: "post_init_steps two_by_three 0 = (post_init two_by_three, 0)"
    using a by blast
  have s2: "evolve_steps unit_model pair_vec 5 0 = (evolve unit_model pair_vec 5, 0)"
    using a valid_examples(5) by simp
  have s3: "evolve_pair_steps unit_model pair_vec one_vec 5 0
              = (evolve_pair unit_model pair_vec one_vec 5, 0)"
    using a valid_examples(5) by simp
  have s4: "evolve_pair_steps unit_model one_vec pair_vec 5 0
              = (evolve_pair unit_model one_vec pair_vec 5, 5)"
    using b valid_examples(1,5) r by simp
  show ?thesis
    using 1 pi ev ep1 ep2 es ok s1 s2 s3 s4 valid_examples(1,5) by simp
qed

text \<open>
  On the identity of one dimension, with a valid first vector, a second vector of length 2
  and three steps, the three propagation steps of the first trajectory are performed
  before the shape error is raised.
\<close>

theorem shape_errors_counterexample:
  "valid_state unit_model one_vec \<and> \<not> valid_state unit_model pair_vec \<and>
   evolve_pair_steps unit_model one_vec pair_vec 3 0 = (Inl (ValueError psi0_msg), 3) \<and>
   estimate_lambda_CG_steps unit_model one_vec pair_vec 3 0 3 0 = (Inl (ValueError psi0_msg), 3)"
proof -
  have "evolve_pair unit_model one_vec pair_vec 3 = Inl (ValueError psi0_msg)"
    by (rule evolve_pair_invalid) (simp add: valid_examples)
  then show ?thesis
    by (simp add: estimate_lambda_CG_steps_eq evolve_pair_steps_eq estimate_lambda_CG_def
          valid_examples range_count_def)
qed

subsection \<open>C5: the clamped, half-open fit window\<close>

text \<open>
  Claim C5. With valid vectors and \<open>n_steps \<ge> 0\<close> the distance sequence has the indices
  \<open>0, \<dots>, n_steps\<close>; \<open>fit_start\<close> is clamped to \<open>a = max fit_start 0\<close> and \<open>fit_end\<close> to
  \<open>b = min fit_end n_steps\<close>. When the window is large enough the index array returned
  is \<open>a, \<dots>, b - 1\<close>, the logarithms returned are those of the distances at exactly these
  indices, the slope is fitted to them, and \<open>b\<close> itself is not among the indices.
\<close>

theorem estimate_fit_window:
  assumes "evolve_pair m psi0 psi0_prime n_steps = Inr (t, t', D)"
    and "0 \<le> n_steps"
    and "max fit_start 0 + 1 < min fit_end n_steps"
  shows "\<exists>slope n_fit logD_fit.
           estimate_lambda_CG m psi0 psi0_prime n_steps fit_start fit_end = Inr (slope, n_fit, logD_fit) \<and>
           0 \<le> max fit_start 0 \<and> min fit_end n_steps \<le> n_steps \<and> length D = nat n_steps + 1 \<and>
           n_fit = [max fit_start 0..min fit_end n_steps - 1] \<and>
           logD_fit = map (\<lambda>k. np_log (D ! nat k)) n_fit \<and>
           slope = polyfit_slope n_fit logD_fit \<and>
           set n_fit = {k. max fit_start 0 \<le> k \<and> k < min fit_end n_steps} \<and>
           min fit_end n_steps \<notin> set n_fit"
proof -
  have rc: "int (range_count n_steps) = n_steps" using assms(2) by (simp add: range_count_def)
  have len: "length D = nat n_steps + 1"
    using evolve_pair_Inr(3) [OF assms(1)] assms(2) by (simp add: range_count_def)
  have "estimate_lambda_CG m psi0 psi0_prime n_steps fit_start fit_end =
          Inr (polyfit_slope [max fit_start 0..min fit_end n_steps - 1]
                 (map (\<lambda>k. np_log (D ! nat k)) [max fit_start 0..min fit_end n_steps - 1]),
               [max fit_start 0..min fit_end n_steps - 1],
               map (\<lambda>k. np_log (D ! nat k)) [max fit_start 0..min fit_end n_steps - 1])"
    using estimate_unfold [OF assms(1), of fit_start fit_end] assms(3) by (simp add: rc)
  moreover have "set [max fit_start 0..min fit_end n_steps - 1]
                 = {k. max fit_start 0 \<le> k \<and> k < min fit_end n_steps}"
    by auto
  ultimately show ?thesis using len by auto
qed

theorem estimate_fit_window_witness:
  "evolve_pair unit_model one_vec two_vec 3 =
     Inr ([[Fin 1], [Fin 1], [Fin 1], [Fin 1]], [[Fin 2], [Fin 2], [Fin 2], [Fin 2]],
          [Fin 1, Fin 1, Fin 1, Fin 1]) \<and>
   estimate_lambda_CG unit_model one_vec two_vec 3 (- 1) 7 =
     Inr (Fin 0, [0, 1, 2], [Fin 0, Fin 0, Fin 0])"
proof -
  have "\<exists>slope n_fit logD_fit.
           estimate_lambda_CG unit_model one_vec two_vec 3 (- 1) 7 = Inr (slope, n_fit, logD_fit) \<and>
           0 \<le> max (- 1) (0::int) \<and> min 7 3 \<le> (3::int) \<and>
           length [Fin 1, Fin 1, Fin 1, Fin 1] = nat 3 + 1 \<and>
           n_fit = [max (- 1) 0..min 7 3 - 1] \<and>
           logD_fit = map (\<lambda>k. np_log ([Fin 1, Fin 1, Fin 1, Fin 1] ! nat k)) n_fit \<and>
           slope = polyfit_slope n_fit logD_fit \<and>
           set n_fit = {k. max (- 1) 0 \<le> k \<and> k < min 7 3} \<and>
           min 7 3 \<notin> set n_fit"
    using evolve_pair_unit_diff by (rule estimate_fit_window) simp_all
  then obtain slope n_fit logD_fit where
    e: "estimate_lambda_CG unit_model one_vec two_vec 3 (- 1) 7 = Inr (slope, n_fit, logD_fit)"
    and n: "n_fit = [max (- 1) 0..min 7 3 - 1]"
    and l: "logD_fit = map (\<lambda>k. np_log ([Fin 1, Fin 1, Fin 1, Fin 1] ! nat k)) n_fit"
    and s: "slope = polyfit_slope n_fit logD_fit"
    by blast
  have n': "n_fit = [0, 1, 2]" using n by (simp add: upto_rec1)
  have l': "logD_fit = [Fin 0, Fin 0, Fin 0]" using l by (simp add: n')
  have "slope = Fin 0"
    using s by (simp add: n' l' polyfit_slope_def ols_slope_def rnd_small)
  then show ?thesis using e n' l' evolve_pair_unit_diff by simp
qed

subsection \<open>C6: the window that is too small\<close>

text \<open>
  Claim C6. For valid vectors, \<^verbatim>\<open>estimate_lambda_CG\<close> raises the window error if and only
  if the clamped bounds satisfy \<open>fit_end \<le> fit_start + 1\<close>, and it raises nothing else;
  the upper clamp is the last index of the distance sequence, \<open>max n_steps 0\<close>. With
  \<open>fit_start = 10\<close> and \<open>fit_end = 11\<close> it raises the window error for every step count.
  (For a vector of the wrong shape the shape error of C4 comes first.)
\<close>

theorem estimate_window_too_small:
  assumes "valid_state m psi0" and "valid_state m psi0_prime"
  shows "(estimate_lambda_CG m psi0 psi0_prime n_steps fit_start fit_end = Inl (ValueError window_msg)
            \<longleftrightarrow> min fit_end (max n_steps 0) \<le> max fit_start 0 + 1) \<and>
         (isl (estimate_lambda_CG m psi0 psi0_prime n_steps fit_start fit_end)
            \<longleftrightarrow> min fit_end (max n_steps 0) \<le> max fit_start 0 + 1) \<and>
         estimate_lambda_CG m psi0 psi0_prime n_steps 10 11 = Inl (ValueError window_msg)"
proof -
  obtain t t' D where ep: "evolve_pair m psi0 psi0_prime n_steps = Inr (t, t', D)"
    using evolve_pair_valid [OF assms, of n_steps] by blast
  have rc: "int (range_count n_steps) = max n_steps 0" by (simp add: range_count_def)
  have 1: "estimate_lambda_CG m psi0 psi0_prime n_steps fit_start fit_end = Inl (ValueError window_msg)"
    if "min fit_end (max n_steps 0) \<le> max fit_start 0 + 1" for fit_start fit_end
    using estimate_unfold [OF ep, of fit_start fit_end] that unfolding rc by simp
  have 2: "\<not> isl (estimate_lambda_CG m psi0 psi0_prime n_steps fit_start fit_end)"
    if "\<not> min fit_end (max n_steps 0) \<le> max fit_start 0 + 1"
    using estimate_unfold [OF ep, of fit_start fit_end] that unfolding rc by simp
  have 3: "estimate_lambda_CG m psi0 psi0_prime n_steps 10 11 = Inl (ValueError window_msg)"
    by (rule 1) simp
  show ?thesis
  proof (cases "min fit_end (max n_steps 0) \<le> max fit_start 0 + 1")
    case True
    then show ?thesis using 1 [OF True] 3 by simp
  next
    case False
    then show ?thesis using 2 [OF False] 3 by auto
  qed
qed

theorem estimate_window_too_small_witness:
  "valid_state unit_model one_vec \<and> valid_state unit_model two_vec \<and>
   estimate_lambda_CG unit_model one_vec two_vec 200 10 11 = Inl (ValueError window_msg) \<and>
   estimate_lambda_CG unit_model one_vec two_vec 3 0 1 = Inl (ValueError window_msg) \<and>
   \<not> isl (estimate_lambda_CG unit_model one_vec two_vec 3 0 3)"
  using estimate_window_too_small [OF valid_examples(1,2), of 200 10 11]
    estimate_window_too_small [OF valid_examples(1,2), of 3 0 1]
    estimate_window_too_small [OF valid_examples(1,2), of 3 0 3]
    valid_examples(1,2)
  by simp

subsection \<open>C7: the distance of a trajectory to itself\<close>

text \<open>
  Claim C7 states that \<^verbatim>\<open>evolve_pair\<close> on two equal vectors gives distances that are all
  zero. That needs the entries of the trajectory to be finite: the difference of an
  infinity or a NaN with itself is NaN. What holds (C7, amended): for every model,
  every valid \<open>v\<close> and every \<open>n_steps \<ge> 0\<close>, if every entry of the trajectory of \<open>v\<close> is
  finite, then \<^verbatim>\<open>evolve_pair\<close> on \<open>v\<close> and \<open>v\<close> returns that trajectory twice and
  \<open>n_steps + 1\<close> distances, all zero.
\<close>

theorem evolve_pair_same_vector:
  assumes "evolve m v n_steps = Inr traj"
    and "list_all (list_all isfinite) traj"
    and "0 \<le> n_steps"
  shows "evolve_pair m v v n_steps = Inr (traj, traj, replicate (nat n_steps + 1) (Fin 0))"
proof -
  have "length traj = nat n_steps + 1"
    using evolve_Inr_length [OF assms(1)] assms(3) by (simp add: range_count_def)
  then show ?thesis
    using assms(1) norm_axis1_self [OF assms(2)] by (simp add: evolve_pair_def)
qed

theorem evolve_pair_same_vector_witness:
  "evolve doubling_model one_vec 2 = Inr [[Fin 1], [Fin 2], [Fin 4]] \<and>
   list_all (list_all isfinite) [[Fin 1], [Fin 2], [Fin 4]] \<and>
   evolve_pair doubling_model one_vec one_vec 2 =
     Inr ([[Fin 1], [Fin 2], [Fin 4]], [[Fin 1], [Fin 2], [Fin 4]], [Fin 0, Fin 0, Fin 0])"
proof -
  have fin: "list_all (list_all isfinite) [[Fin 1], [Fin 2], [Fin 4]]" by simp
  have "evolve_pair doubling_model one_vec one_vec 2 =
          Inr ([[Fin 1], [Fin 2], [Fin 4]], [[Fin 1], [Fin 2], [Fin 4]],
               replicate (nat 2 + 1) (Fin 0))"
    using evolve_doubling_one fin by (rule evolve_pair_same_vector) simp
  then show ?thesis using evolve_doubling_one by (simp add: eval_nat_numeral)
qed

text \<open>
  The propagator \<open>[[2]]\<close> takes the finite vector \<open>[2^1023]\<close> to \<open>[inf]\<close> in one step, and
  the distance at step 1 is NaN, not zero.
\<close>

theorem evolve_pair_same_vector_counterexample:
  "evolve_pair doubling_model huge_vec huge_vec 1 =
     Inr ([[Fin huge], [PInf]], [[Fin huge], [PInf]], [Fin 0, NaN])"
  by (simp add: evolve_pair_def evolve_doubling_huge norm_axis1_def array_sub_def fsub_def
        row_norm_def fsum_def rnd_small)

subsection \<open>C8: the norm of the first power\<close>

text \<open>
  Claim C8. For every model, \<^verbatim>\<open>power_norm(1)\<close> and \<^verbatim>\<open>operator_norm()\<close> have the same
  outcome, the same value or the same error, whatever the decomposition routine returns:
  \<^verbatim>\<open>matrix_power(T, 1)\<close> is \<open>T\<close> itself.
\<close>

theorem power_norm_one: "power_norm svd m 1 = operator_norm svd m"
  by (simp add: power_norm_def operator_norm_def matrix_power_def)

subsection \<open>C10: a negative step count\<close>

text \<open>
  Claim C10. For \<open>n_steps < 0\<close> \<^verbatim>\<open>evolve\<close> does what it does for \<open>n_steps = 0\<close>: the loop
  runs zero times, a valid vector \<open>v\<close> gives the trajectory of the single row \<open>v\<close>, and
  the only error is the shape error of a vector that is not valid.
\<close>

theorem evolve_negative_steps:
  assumes "n_steps < 0"
  shows "evolve m psi0 n_steps = evolve m psi0 0 \<and>
         (if valid_state m psi0 then evolve m psi0 n_steps = Inr [data psi0]
          else evolve m psi0 n_steps = Inl (ValueError psi0_msg))"
  using assms by (simp add: evolve_def range_count_def valid_state_def np_array_float_def)

theorem evolve_negative_steps_witness:
  "(- 3 :: int) < 0 \<and> valid_state doubling_model one_vec \<and>
   evolve doubling_model one_vec (- 3) = Inr [[Fin 1]] \<and>
   evolve doubling_model one_vec 0 = Inr [[Fin 1]]"
proof -
  have n: "(- 3 :: int) < 0" by simp
  have v: "valid_state doubling_model one_vec" by (rule valid_examples)
  note t = evolve_negative_steps [OF n, of doubling_model one_vec]
  from t have a: "evolve doubling_model one_vec (- 3) = evolve doubling_model one_vec 0"
    by (rule conjunct1)
  from t have "if valid_state doubling_model one_vec
               then evolve doubling_model one_vec (- 3) = Inr [data one_vec]
               else evolve doubling_model one_vec (- 3) = Inl (ValueError psi0_msg)"
    by (rule conjunct2)
  with v have b: "evolve doubling_model one_vec (- 3) = Inr [data one_vec]"
    by (simp only: if_True)
  have c: "data one_vec = [Fin 1]" by (simp add: one_vec_def)
  from a b have "evolve doubling_model one_vec 0 = Inr [data one_vec]" by (rule subst)
  with b v show ?thesis unfolding c by simp
qed

end
